theory Spec2Isabelle
  imports Complex_Main
begin

section \<open>Python values used by the mixer\<close>

text \<open>
  Python floats are modelled as exact reals (the planner only adds, subtracts, compares
  and takes maxima), Python ints as \<open>int\<close>, strings as \<open>string\<close>.  A
  \<open>pathlib.Path\<close> is kept as the three attributes the code reads from it.
  Where two classes of the source share a field name, the field carries the class as a
  prefix (\<open>video_file_path\<close>, \<open>audio_file_path\<close>); the field
  \<open>black_extension_duration\<close> of a plan is \<open>plan_black_extension_duration\<close>, the
  plain name being the method of the session.
\<close>

record path =
  parent :: string
  stem :: string
  suffix :: string

definition path_str :: "path \<Rightarrow> string" where
  "path_str p = parent p @ ''/'' @ stem p @ suffix p"

definition joinpath :: "string \<Rightarrow> string \<Rightarrow> string \<Rightarrow> path" where
  "joinpath base_dir name ext = \<lparr>parent = base_dir, stem = name, suffix = ext\<rparr>"

definition digit_char :: "nat \<Rightarrow> char" where
  "digit_char d = ''0123456789'' ! d"

fun str_nat :: "nat \<Rightarrow> string" where
  "str_nat n = (if n < 10 then [digit_char n] else str_nat (n div 10) @ [digit_char (n mod 10)])"

declare str_nat.simps [simp del]

definition str_int :: "int \<Rightarrow> string" where
  "str_int i = (if i < 0 then CHR ''-'' # str_nat (nat (- i)) else str_nat (nat i))"

definition py_int :: "real \<Rightarrow> int" where
  "py_int x = (if 0 \<le> x then \<lfloor>x\<rfloor> else \<lceil>x\<rceil>)"

section \<open>models/media.py\<close>

datatype AudioCategory = SE | VO | MUSIC

datatype LengthMode = MATCH_VIDEO | FIXED_SECONDS | FIXED_FRAMES

record VideoClip =
  video_file_path :: path
  video_display_name :: string
  video_duration_seconds :: real
  fps :: real
  resolution :: "int \<times> int"
  has_audio :: bool
  video_clip_id :: string

record AudioClip =
  audio_file_path :: path
  category :: AudioCategory
  audio_duration_seconds :: real
  sample_rate :: int
  audio_display_name :: string
  start_frame :: "int option"
  source_start_seconds :: real
  audio_clip_id :: string

definition start_seconds :: "AudioClip \<Rightarrow> real \<Rightarrow> real" where
  "start_seconds clip rate =
     (let frame = (case start_frame clip of None \<Rightarrow> 0 | Some f \<Rightarrow> f)
      in if rate \<le> 0 then 0 else real_of_int frame / rate)"

record TrackConfig =
  video_id :: string
  override_original :: bool
  enable_limiter :: bool
  music_random_seed :: "int option"
  music_retry_limit :: int
  music_random_enabled :: bool
  music_length_mode :: LengthMode
  music_length_value :: "real option"
  music_start_offset :: real
  video_audio_lead :: real

record MixSession =
  video_clip :: VideoClip
  audio_clips :: "AudioClip list"
  config :: TrackConfig
  target_output :: path
  session_id :: string

text \<open>The loop of \<open>MixSession.black_extension_duration\<close>, with \<open>se_vo_end\<close> as accumulator.\<close>

fun se_vo_end_loop :: "real \<Rightarrow> AudioClip list \<Rightarrow> real \<Rightarrow> real" where
  "se_vo_end_loop rate [] se_vo_end = se_vo_end"
| "se_vo_end_loop rate (clip # clips) se_vo_end =
     (if category clip \<notin> {SE, VO} then se_vo_end_loop rate clips se_vo_end
      else let start = start_seconds clip rate;
               end_time = start + audio_duration_seconds clip
           in se_vo_end_loop rate clips (max se_vo_end end_time))"

definition black_extension_duration :: "MixSession \<Rightarrow> real" where
  "black_extension_duration session =
     (let video_duration = video_duration_seconds (video_clip session);
          se_vo_end = se_vo_end_loop (fps (video_clip session)) (audio_clips session) video_duration
      in max 0 (se_vo_end - video_duration))"

definition requires_black_extension :: "MixSession \<Rightarrow> bool" where
  "requires_black_extension session \<longleftrightarrow> black_extension_duration session > 0"

section \<open>services/mix\_planner.py\<close>

text \<open>
  What the planner takes from the Python runtime and from the host.  \<open>float_str\<close> is
  the text an f-string gives a float, \<open>fixed3\<close> the text of the format
  \<open>:.3f\<close>; \<open>seeded_random\<close> is the stream of
  \<open>random()\<close> values of \<open>random.Random(seed)\<close>, a fixed function of the seed.
  The host supplies what differs from call to call: the \<open>uuid4().hex\<close> token of a
  plan and the stream of an unseeded \<open>random.Random(None)\<close>, one stream per clip index
  as every clip creates its own generator.
\<close>

record runtime =
  float_str :: "real \<Rightarrow> string"
  fixed3 :: "real \<Rightarrow> string"
  seeded_random :: "int \<Rightarrow> nat \<Rightarrow> real"

record host =
  uuid4_hex :: string
  unseeded_random :: "nat \<Rightarrow> nat \<Rightarrow> real"

record MixPlan =
  video_input :: path
  audio_inputs :: "path list"
  audio_filters :: "string list"
  output_args :: "string list"
  needs_black_extension :: bool
  plan_black_extension_duration :: real
  video_resolution :: "int \<times> int"
  video_fps :: real
  black_clip_path :: "path option"
  concat_list_path :: "path option"
  extended_video_path :: "path option"
  audio_output_label :: string
  include_original_audio :: bool
  amix_normalize :: int

definition new_MixPlan :: "path \<Rightarrow> MixPlan" where
  "new_MixPlan p =
     \<lparr>video_input = p, audio_inputs = [], audio_filters = [], output_args = [],
      needs_black_extension = False, plan_black_extension_duration = 0,
      video_resolution = (0, 0), video_fps = 0, black_clip_path = None,
      concat_list_path = None, extended_video_path = None,
      audio_output_label = ''aout'', include_original_audio = False, amix_normalize = 0\<rparr>"

text \<open>
  \<open>rng.uniform(a, b)\<close> is \<open>a + (b - a) * random()\<close>.  The retry loop keeps the
  position in the generator's stream and the last candidate.
\<close>

definition uniform :: "(nat \<Rightarrow> real) \<Rightarrow> nat \<Rightarrow> real \<Rightarrow> real \<Rightarrow> real" where
  "uniform rng k a b = a + (b - a) * rng k"

fun retry_loop :: "(nat \<Rightarrow> real) \<Rightarrow> real \<Rightarrow> nat \<Rightarrow> nat \<times> real \<Rightarrow> nat \<times> real" where
  "retry_loop rng max_start 0 st = st"
| "retry_loop rng max_start (Suc n) (k, best_value) =
     retry_loop rng max_start n (Suc k, uniform rng k 0 max_start)"

definition make_rng :: "runtime \<Rightarrow> host \<Rightarrow> nat \<Rightarrow> int option \<Rightarrow> nat \<Rightarrow> real" where
  "make_rng rt h index seed =
     (case seed of None \<Rightarrow> unseeded_random h index | Some k \<Rightarrow> seeded_random rt k)"

text \<open>
  \<open>_random_music_offset\<close>; the first component counts the calls of the generator,
  the second is the returned offset.
\<close>

definition random_music_offset_run ::
  "runtime \<Rightarrow> host \<Rightarrow> nat \<Rightarrow> AudioClip \<Rightarrow> MixSession \<Rightarrow> nat \<times> real" where
  "random_music_offset_run rt h index clip session =
     (let total_duration = max (audio_duration_seconds clip) 0
      in if video_duration_seconds (video_clip session) \<le> 0 \<or> total_duration \<le> 0 then (0, 0)
         else let max_start = max (total_duration - video_duration_seconds (video_clip session)) 0
              in if max_start \<le> 0 then (0, 0)
                 else let rng = make_rng rt h index (music_random_seed (config session));
                          attempts = max (music_retry_limit (config session)) 1
                      in retry_loop rng max_start (nat attempts) (0, 0))"

definition random_music_offset :: "runtime \<Rightarrow> host \<Rightarrow> nat \<Rightarrow> AudioClip \<Rightarrow> MixSession \<Rightarrow> real" where
  "random_music_offset rt h index clip session = snd (random_music_offset_run rt h index clip session)"

definition music_length_trim :: "runtime \<Rightarrow> MixSession \<Rightarrow> string option" where
  "music_length_trim rt session =
     (let mode = music_length_mode (config session);
          val = music_length_value (config session)
      in if mode = MATCH_VIDEO \<or> val = None then None
         else if mode = FIXED_SECONDS then Some (''atrim=0:'' @ float_str rt (the val))
         else if mode = FIXED_FRAMES then
           Some (''atrim=0:'' @ float_str rt (the val / max (fps (video_clip session)) 1))
         else None)"

text \<open>The closures \<open>next_label\<close> and \<open>apply_filter\<close> act on three local variables.\<close>

record chain =
  filters :: "string list"
  current_ref :: string
  label_counter :: nat

definition next_label :: "string \<Rightarrow> string \<Rightarrow> chain \<Rightarrow> chain \<times> string" where
  "next_label output_label sfx st =
     (let st' = st\<lparr>label_counter := label_counter st + 1\<rparr>
      in (st', output_label @ ''_'' @ sfx @ ''_'' @ str_nat (label_counter st')))"

definition apply_filter :: "string \<Rightarrow> string \<Rightarrow> chain \<Rightarrow> chain" where
  "apply_filter output_label filter_expr st =
     (case next_label output_label ''flt'' st of
        (st', new_label) \<Rightarrow>
          st'\<lparr>filters := filters st' @ [current_ref st' @ filter_expr @ ''['' @ new_label @ '']''],
              current_ref := ''['' @ new_label @ '']''\<rparr>)"

definition clip_source_offset :: "runtime \<Rightarrow> host \<Rightarrow> nat \<Rightarrow> AudioClip \<Rightarrow> MixSession \<Rightarrow> real" where
  "clip_source_offset rt h index clip session =
     (if category clip = MUSIC then
        source_start_seconds clip + max 0 (music_start_offset (config session))
          + (if music_random_enabled (config session)
             then random_music_offset rt h index clip session else 0)
      else source_start_seconds clip)"

definition clip_delay_seconds :: "AudioClip \<Rightarrow> MixSession \<Rightarrow> real" where
  "clip_delay_seconds clip session =
     max 0 (start_seconds clip (fps (video_clip session)) + max 0 (video_audio_lead (config session)))"

definition build_clip_filters ::
  "runtime \<Rightarrow> host \<Rightarrow> nat \<Rightarrow> AudioClip \<Rightarrow> MixSession \<Rightarrow> string \<times> string list" where
  "build_clip_filters rt h index clip session =
     (let output_label = ''a'' @ str_nat index;
          st0 = \<lparr>filters = [], current_ref = ''['' @ str_nat (index + 1) @ '':a]'', label_counter = 0\<rparr>;
          source_offset = clip_source_offset rt h index clip session;
          st1 = (if source_offset > 0
                 then apply_filter output_label
                        (''atrim=start='' @ float_str rt source_offset @ '',asetpts=PTS-STARTPTS'') st0
                 else st0);
          st2 = (if category clip = MUSIC then
                   (case music_length_trim rt session of
                      None \<Rightarrow> st1
                    | Some trim_expr \<Rightarrow>
                        if trim_expr \<noteq> [] then apply_filter output_label (trim_expr @ '',asetpts=PTS-STARTPTS'') st1
                        else st1)
                 else st1);
          delay_seconds = clip_delay_seconds clip session;
          st3 = (if delay_seconds > 0
                 then let delay_ms = str_int (py_int (delay_seconds * 1000))
                      in apply_filter output_label (''adelay='' @ delay_ms @ ''|'' @ delay_ms) st2
                 else st2);
          st4 = (if current_ref st3 \<noteq> ''['' @ output_label @ '']''
                 then st3\<lparr>filters := filters st3 @ [current_ref st3 @ ''anull['' @ output_label @ '']'']\<rparr>
                 else st3)
      in (output_label, filters st4))"

definition build_original_filters :: "MixSession \<Rightarrow> string \<times> string list" where
  "build_original_filters session =
     (let output_label = ''orig_audio'';
          delay_seconds = max 0 (video_audio_lead (config session));
          (fs, cur) =
             (if delay_seconds > 0
              then let delay_ms = str_int (py_int (delay_seconds * 1000))
                   in ([''[0:a]'' @ ''adelay='' @ delay_ms @ ''|'' @ delay_ms @ ''['' @ output_label @ ''_delay]''],
                       ''['' @ output_label @ ''_delay]'')
              else ([], ''[0:a]''));
          fs' = (if cur \<noteq> ''['' @ output_label @ '']''
                 then fs @ [cur @ ''anull['' @ output_label @ '']''] else fs)
      in (output_label, fs'))"

text \<open>
  The loop over \<open>enumerate(session.audio_clips)\<close>: the plan collects inputs and
  filters, \<open>audio_outputs\<close> the final labels.
\<close>

fun clips_loop ::
  "runtime \<Rightarrow> host \<Rightarrow> MixSession \<Rightarrow> nat \<Rightarrow> AudioClip list \<Rightarrow> MixPlan \<times> string list \<Rightarrow> MixPlan \<times> string list" where
  "clips_loop rt h session index [] st = st"
| "clips_loop rt h session index (audio_clip # rest) (plan, audio_outputs) =
     (case build_clip_filters rt h index audio_clip session of
        (final_label, fls) \<Rightarrow>
          clips_loop rt h session (Suc index) rest
            (plan\<lparr>audio_inputs := audio_inputs plan @ [audio_file_path audio_clip],
                  audio_filters := audio_filters plan @ fls\<rparr>,
             audio_outputs @ [final_label]))"

definition mix_fragment :: "string list \<Rightarrow> MixPlan \<Rightarrow> string" where
  "mix_fragment audio_outputs plan =
     concat (map (\<lambda>label. ''['' @ label @ '']'') audio_outputs)
       @ ''amix=inputs='' @ str_nat (length audio_outputs)
       @ '':normalize='' @ str_int (amix_normalize plan)
       @ ''['' @ audio_output_label plan @ '']''"

definition build_plan :: "runtime \<Rightarrow> host \<Rightarrow> MixSession \<Rightarrow> MixPlan" where
  "build_plan rt h session =
     (let plan0 = (new_MixPlan (video_file_path (video_clip session)))
            \<lparr>video_resolution := resolution (video_clip session),
             video_fps := fps (video_clip session),
             include_original_audio :=
               (\<not> override_original (config session) \<and> has_audio (video_clip session)),
             amix_normalize := (if enable_limiter (config session) then 1 else 0)\<rparr>;
          (plan1, outputs1) = clips_loop rt h session 0 (audio_clips session) (plan0, []);
          (plan2, outputs2) =
             (if include_original_audio plan1
              then (case build_original_filters session of
                      (final_label, fls) \<Rightarrow>
                        (plan1\<lparr>audio_filters := audio_filters plan1 @ fls\<rparr>, outputs1 @ [final_label]))
              else (plan1, outputs1));
          plan3 = (if outputs2 \<noteq> []
                   then plan2\<lparr>audio_filters := audio_filters plan2 @ [mix_fragment outputs2 plan2]\<rparr>
                   else plan2);
          plan4 = plan3\<lparr>output_args := [''-c:v'', ''copy'', ''-c:a'', ''aac'', ''-b:a'', ''192k''],
                        plan_black_extension_duration := black_extension_duration session\<rparr>;
          plan5 = plan4\<lparr>needs_black_extension := (plan_black_extension_duration plan4 > 0)\<rparr>
      in if needs_black_extension plan5
         then let unique_token = uuid4_hex h;
                  base_dir = parent (video_file_path (video_clip session));
                  stm = stem (video_file_path (video_clip session))
              in plan5\<lparr>black_clip_path := Some (joinpath base_dir (stm @ ''_black_'' @ unique_token) ''.mp4''),
                       concat_list_path := Some (joinpath base_dir (stm @ ''_concat_'' @ unique_token) ''.txt''),
                       extended_video_path := Some (joinpath base_dir (stm @ ''_extended_'' @ unique_token) ''.mp4'')\<rparr>
         else plan5)"


section \<open>core/ffmpeg\_adapter.py\<close>

text \<open>
  The external tool is a parameter: given the full command line and the files on disk it
  either raises (the process cannot be started) or returns a result and the files it left.
  The world of a run holds the files on disk, the command lines handed to the tool, and
  the lines written to the logger.
\<close>

record FFmpegResult =
  return_code :: int
  stdout :: string
  stderr :: string

datatype exn = FileNotFoundError | OSError

datatype log_entry = log_error string | log_success string

type_synonym tool = "string list \<Rightarrow> string set \<Rightarrow> exn + FFmpegResult \<times> string set"

record world =
  files :: "string set"
  invocations :: "string list list"
  logged :: "log_entry list"

definition base_command :: "string list" where
  "base_command = [''ffmpeg'', ''-hide_banner'', ''-loglevel'', ''warning'', ''-y'']"

definition run_command :: "tool \<Rightarrow> string list \<Rightarrow> world \<Rightarrow> (exn + FFmpegResult) \<times> world" where
  "run_command ffmpeg command w =
     (let full_command = base_command @ command;
          w1 = w\<lparr>invocations := invocations w @ [full_command]\<rparr>
      in case ffmpeg full_command (files w1) of
           Inl e \<Rightarrow> (Inl e, w1)
         | Inr (res, fs) \<Rightarrow> (Inr res, w1\<lparr>files := fs\<rparr>))"

definition concat_videos :: "tool \<Rightarrow> path \<Rightarrow> path \<Rightarrow> world \<Rightarrow> (exn + FFmpegResult) \<times> world" where
  "concat_videos ffmpeg list_file output_path w =
     run_command ffmpeg
       [''-f'', ''concat'', ''-safe'', ''0'', ''-i'', path_str list_file, ''-c'', ''copy'',
        path_str output_path] w"

definition generate_black_clip ::
  "runtime \<Rightarrow> tool \<Rightarrow> path \<Rightarrow> int \<times> int \<Rightarrow> real \<Rightarrow> real \<Rightarrow> world \<Rightarrow> (exn + FFmpegResult) \<times> world" where
  "generate_black_clip rt ffmpeg output_path res duration rate w =
     (case res of
        (width, height) \<Rightarrow>
          run_command ffmpeg
            [''-f'', ''lavfi'', ''-i'',
             ''color=c=black:s='' @ str_int width @ ''x'' @ str_int height @ '':d='' @ fixed3 rt duration,
             ''-r'', fixed3 rt rate, ''-pix_fmt'', ''yuv420p'', path_str output_path] w)"

section \<open>services/task\_executor.py\<close>

fun join :: "string \<Rightarrow> string list \<Rightarrow> string" where
  "join sep [] = []"
| "join sep [x] = x"
| "join sep (x # y # ys) = x @ sep @ join sep (y # ys)"

definition write_text :: "path \<Rightarrow> world \<Rightarrow> world" where
  "write_text p w = w\<lparr>files := insert (path_str p) (files w)\<rparr>"

definition unlink :: "path \<Rightarrow> world \<Rightarrow> world" where
  "unlink p w = w\<lparr>files := files w - {path_str p}\<rparr>"

text \<open>The command of the final invocation, lines 36 to 49 of \<open>_run_plan\<close>.\<close>

definition mix_command :: "MixPlan \<Rightarrow> path \<Rightarrow> path \<Rightarrow> string list" where
  "mix_command plan video_in output_path =
     [''-i'', path_str video_in]
     @ concat (map (\<lambda>audio_path. [''-i'', path_str audio_path]) (audio_inputs plan))
     @ (if audio_filters plan \<noteq> [] then
          [''-filter_complex'', join '';'' (audio_filters plan)]
          @ [''-map'', ''0:v:0'', ''-map'', ''['' @ audio_output_label plan @ '']'']
        else if audio_inputs plan \<noteq> [] then [''-map'', ''0:v:0'', ''-map'', ''1:a:0'']
        else [''-map'', ''0:v:0''])
     @ output_args plan
     @ [path_str output_path]"

text \<open>
  The part of \<open>_run_plan\<close> after the extension block: the final invocation, its log
  line, and the loop that unlinks \<open>temp_paths\<close>.
\<close>

definition run_mix ::
  "tool \<Rightarrow> MixPlan \<Rightarrow> path \<Rightarrow> path list \<Rightarrow> path \<Rightarrow> world \<Rightarrow> exn option \<times> world" where
  "run_mix ffmpeg plan output_path temp_paths video_in w =
     (case run_command ffmpeg (mix_command plan video_in output_path) w of
        (Inl e, w1) \<Rightarrow> (Some e, w1)
      | (Inr res, w1) \<Rightarrow>
          (let w2 = (if return_code res = 0
                     then w1\<lparr>logged := logged w1 @ [log_success (path_str output_path)]\<rparr>
                     else w1\<lparr>logged := logged w1 @ [log_error (path_str output_path @ stderr res)]\<rparr>)
           in (None, fold unlink temp_paths w2)))"

text \<open>
  \<open>TaskExecutor._run_plan\<close>.  The result is the exception that left the method, if
  any, and the world after it.
\<close>

definition run_plan ::
  "runtime \<Rightarrow> tool \<Rightarrow> MixPlan \<Rightarrow> path \<Rightarrow> world \<Rightarrow> exn option \<times> world" where
  "run_plan rt ffmpeg plan output_path w =
     (if needs_black_extension plan \<and> black_clip_path plan \<noteq> None
         \<and> concat_list_path plan \<noteq> None \<and> extended_video_path plan \<noteq> None then
        (case generate_black_clip rt ffmpeg (the (black_clip_path plan)) (video_resolution plan)
                (plan_black_extension_duration plan) (video_fps plan) w of
           (Inl e, w1) \<Rightarrow> (Some e, w1)
         | (Inr black_result, w1) \<Rightarrow>
             (if return_code black_result \<noteq> 0
              then (None, w1\<lparr>logged := logged w1 @ [log_error (stderr black_result)]\<rparr>)
              else
                (let w2 = write_text (the (concat_list_path plan)) w1
                 in (case concat_videos ffmpeg (the (concat_list_path plan))
                           (the (extended_video_path plan)) w2 of
                       (Inl e, w3) \<Rightarrow> (Some e, w3)
                     | (Inr concat_result, w3) \<Rightarrow>
                         (if return_code concat_result \<noteq> 0
                          then (None, w3\<lparr>logged := logged w3 @ [log_error (stderr concat_result)]\<rparr>)
                          else run_mix ffmpeg plan output_path
                                 [the (black_clip_path plan), the (concat_list_path plan),
                                  the (extended_video_path plan)]
                                 (the (extended_video_path plan)) w3)))))
      else run_mix ffmpeg plan output_path [] (video_input plan) w)"

section \<open>services/preview\_controller.py\<close>



section \<open>Double-precision arithmetic\<close>

text \<open>
  The planner above is read over exact reals.  The conversion of a start time back to a
  frame count truncates a product of floats, so there the rounding of each operation
  decides the result, and the two conversions are modelled once more with it.
  \<open>float_round\<close> is the rounding of binary64: the value is scaled by powers of two into
  \<open>[2^52, 2^53)\<close>, rounded to the nearest integer, ties to even, and scaled back.  The
  exponent range is not bounded (no overflow, no subnormal numbers); the count bounds the
  scaling steps and is never reached for magnitudes between \<open>2^-2100\<close> and \<open>2^2200\<close>.
\<close>

definition round_half_even :: "real \<Rightarrow> int" where
  "round_half_even x =
     (let f = \<lfloor>x\<rfloor>; d = x - of_int f
      in if d < 1 / 2 then f else if 1 / 2 < d then f + 1 else if even f then f else f + 1)"

fun round_norm :: "nat \<Rightarrow> real \<Rightarrow> real" where
  "round_norm 0 x = x"
| "round_norm (Suc k) x =
     (if 2 ^ 53 \<le> x then 2 * round_norm k (x / 2)
      else if x < 2 ^ 52 then round_norm k (x * 2) / 2
      else of_int (round_half_even x))"

definition float_round :: "real \<Rightarrow> real" where
  "float_round x =
     (if x = 0 then 0 else if 0 < x then round_norm 2200 x else - round_norm 2200 (- x))"


definition float_mul :: "real \<Rightarrow> real \<Rightarrow> real" where
  "float_mul a b = float_round (a * b)"


section \<open>services/media\_repository.py\<close>


definition update_clip_parameters :: "AudioClip \<Rightarrow> real \<Rightarrow> real \<Rightarrow> real \<Rightarrow> AudioClip" where
  "update_clip_parameters clip start_secs source_offset rate =
     clip\<lparr>start_frame := (if rate > 0 then Some (py_int (float_mul start_secs rate)) else None),
          source_start_seconds := max 0 source_offset\<rparr>"

fun update_audio_parameters ::
  "AudioClip list \<Rightarrow> string \<Rightarrow> real \<Rightarrow> real \<Rightarrow> real \<Rightarrow> AudioClip list" where
  "update_audio_parameters [] audio_id start_secs source_offset rate = []"
| "update_audio_parameters (clip # clips) audio_id start_secs source_offset rate =
     (if audio_clip_id clip = audio_id
      then update_clip_parameters clip start_secs source_offset rate # clips
      else clip # update_audio_parameters clips audio_id start_secs source_offset rate)"


section \<open>a3\_MultiAudioAuto\_MixWithOriginal\_dePrefix.py\<close>

text \<open>
  The batch script.  Its surroundings are a record: the listing of the audio directory
  (\<open>None\<close> when the directory is missing or cannot be read), the regular files, the
  external commands (\<open>None\<close> when the program cannot be started, else return code,
  standard output and standard error), the clock, the parsers and formatters of the
  Python runtime, and the files that can be opened for writing.  Directories are given
  as absolute paths.  Every function takes and returns the list of the command lines run
  so far.  The \<open>finally\<close> block of the task only removes files and is not part of the
  model: it does not change the status returned.
\<close>

datatype status = success | skipped | failed

record script_env =
  audio_dir :: string
  mix_dir :: string
  work_dir :: string
  listdir :: "string \<Rightarrow> string list option"
  isfile :: "string \<Rightarrow> bool"
  external :: "string list \<Rightarrow> (int \<times> string \<times> string) option"
  clock :: int
  parse_float :: "string \<Rightarrow> real option"
  parse_int :: "string \<Rightarrow> int option"
  format6 :: "real \<Rightarrow> string"
  float_text :: "real \<Rightarrow> string"
  writable :: "string \<Rightarrow> bool"

definition lower_char :: "char \<Rightarrow> char" where
  "lower_char c =
     (case map_of (zip ''ABCDEFGHIJKLMNOPQRSTUVWXYZ'' ''abcdefghijklmnopqrstuvwxyz'') c of
        None \<Rightarrow> c | Some d \<Rightarrow> d)"

definition lower :: "string \<Rightarrow> string" where
  "lower s = map lower_char s"

definition endswith :: "string \<Rightarrow> string \<Rightarrow> bool" where
  "endswith s sfx \<longleftrightarrow> length sfx \<le> length s \<and> drop (length s - length sfx) s = sfx"

definition is_space :: "char \<Rightarrow> bool" where
  "is_space c \<longleftrightarrow> c \<in> set [CHR '' '', CHR 0x09, CHR 0x0A, CHR 0x0B, CHR 0x0C, CHR 0x0D]"

definition strip :: "string \<Rightarrow> string" where
  "strip s = rev (dropWhile is_space (rev (dropWhile is_space s)))"

fun split_on :: "char \<Rightarrow> string \<Rightarrow> string list" where
  "split_on c [] = [[]]"
| "split_on c (x # xs) =
     (if x = c then [] # split_on c xs
      else (case split_on c xs of [] \<Rightarrow> [[x]] | w # ws \<Rightarrow> (x # w) # ws))"

definition path_join :: "string \<Rightarrow> string \<Rightarrow> string" where
  "path_join d f = d @ ''/'' @ f"

definition splitext_root :: "string \<Rightarrow> string" where
  "splitext_root name =
     (let ext_rev = takeWhile (\<lambda>c. c \<noteq> CHR ''.'') (rev name)
      in if length ext_rev = length name then name
         else let root = take (length name - length ext_rev - 1) name
              in if dropWhile (\<lambda>c. c = CHR ''.'') root = [] then name else root)"

definition a3_run_command ::
  "script_env \<Rightarrow> string list \<Rightarrow> int option \<times> string option \<times> string option" where
  "a3_run_command env cmd =
     (case external env cmd of
        None \<Rightarrow> (None, None, None)
      | Some (rc, out, err) \<Rightarrow> (Some rc, Some out, Some err))"

definition run_ffprobe ::
  "script_env \<Rightarrow> string \<Rightarrow> string \<Rightarrow> string \<Rightarrow> nat \<Rightarrow> string \<Rightarrow> string list list
     \<Rightarrow> string option \<times> string list list" where
  "run_ffprobe env input_file show_entries stream_type stream_index format_option tr =
     (let cmd = [''ffprobe'', ''-v'', ''error'', ''-select_streams'',
                 stream_type @ '':'' @ str_nat stream_index,
                 ''-show_entries'', show_entries, ''-of'', format_option, input_file]
      in case a3_run_command env cmd of
           (rc, out, err) \<Rightarrow>
             (if rc = Some 0 \<and> out \<noteq> None then Some (strip (the out)) else None, tr @ [cmd]))"

definition default_format :: string where
  "default_format = ''default=noprint_wrappers=1:nokey=1''"

definition run_ffmpeg_command ::
  "script_env \<Rightarrow> string list \<Rightarrow> string list list \<Rightarrow> bool \<times> string list list" where
  "run_ffmpeg_command env command_list tr =
     (let cmd = [''ffmpeg'', ''-hide_banner'', ''-loglevel'', ''warning'', ''-y''] @ command_list
      in case a3_run_command env cmd of
           (rc, out, err) \<Rightarrow> (rc = Some 0, tr @ [cmd]))"

definition matching_audios :: "script_env \<Rightarrow> string \<Rightarrow> string list \<Rightarrow> string list" where
  "matching_audios env video_name names =
     map (path_join (audio_dir env))
       (filter (\<lambda>filename. endswith (lower filename) (lower (video_name @ ''.wav''))
                  \<and> isfile env (path_join (audio_dir env) filename)) names)"

definition premix_command :: "string list \<Rightarrow> string \<Rightarrow> string list" where
  "premix_command audios temp_combined_audio_file =
     concat (map (\<lambda>audio_path. [''-i'', audio_path]) audios)
     @ [''-filter_complex'',
        concat (map (\<lambda>i. ''['' @ str_nat i @ '':a]'') [0..<length audios])
          @ ''amix=inputs='' @ str_nat (length audios) @ '':duration=longest:normalize=0[a_mix]'']
     @ [''-map'', ''[a_mix]'']
     @ [''-c:a'', ''pcm_s16le'', temp_combined_audio_file]"

definition find_and_mix_audio ::
  "script_env \<Rightarrow> string \<Rightarrow> string list list
     \<Rightarrow> (string option \<times> string option) \<times> string list list" where
  "find_and_mix_audio env video_name tr =
     (case listdir env (audio_dir env) of
        None \<Rightarrow> ((None, None), tr)
      | Some names \<Rightarrow>
          (let audios = matching_audios env video_name names
           in if audios = [] then ((None, None), tr)
              else if length audios = 1 then ((Some (audios ! 0), None), tr)
              else
                (let temp_combined_audio_file =
                       path_join (mix_dir env)
                         (''temp_combined_'' @ video_name @ ''_'' @ str_int (clock env) @ ''.wav'')
                 in case run_ffmpeg_command env (premix_command audios temp_combined_audio_file) tr of
                      (ok, tr1) \<Rightarrow>
                        if ok then ((Some temp_combined_audio_file, Some temp_combined_audio_file), tr1)
                        else ((None, None), tr1))))"

text \<open>Parsing of width, height and frame rate; \<open>None\<close> is the \<open>ValueError\<close>.\<close>

definition parse_video_attributes ::
  "script_env \<Rightarrow> string \<Rightarrow> string \<Rightarrow> string \<Rightarrow> (int \<times> int \<times> real) option" where
  "parse_video_attributes env video_width_str video_height_str video_fps_str =
     (case (parse_int env video_width_str, parse_int env video_height_str) of
        (Some video_width, Some video_height) \<Rightarrow>
          if video_width \<le> 0 \<or> video_height \<le> 0 then None
          else
            (let rate =
                   (if CHR ''/'' \<in> set video_fps_str then
                      (case map (parse_float env) (split_on CHR ''/'' video_fps_str) of
                         [Some num, Some den] \<Rightarrow> Some (if den \<noteq> 0 then num / den else 0)
                       | _ \<Rightarrow> None)
                    else parse_float env video_fps_str)
             in case rate of
                  None \<Rightarrow> None
                | Some frame_rate \<Rightarrow>
                    if frame_rate \<le> 0 then None else Some (video_width, video_height, frame_rate))
      | _ \<Rightarrow> None)"

text \<open>
  Step 3 of the task, taken when the external audio is longer than the video by more than
  the tolerance: \<open>None\<close> is a return with status failed, else the extended video.
\<close>

definition extend_video ::
  "script_env \<Rightarrow> string \<Rightarrow> string \<Rightarrow> real \<Rightarrow> string list list \<Rightarrow> string option \<times> string list list" where
  "extend_video env video_name abs_video_file duration_diff tr =
     (case run_ffprobe env abs_video_file ''stream=width'' ''v'' 0 ''csv=p=0'' tr of
        (video_width_str, tr1) \<Rightarrow>
     (case run_ffprobe env abs_video_file ''stream=height'' ''v'' 0 ''csv=p=0'' tr1 of
        (video_height_str, tr2) \<Rightarrow>
     (case run_ffprobe env abs_video_file ''stream=r_frame_rate'' ''v'' 0 default_format tr2 of
        (video_fps_str, tr3) \<Rightarrow>
          if video_width_str = None \<or> video_height_str = None \<or> video_fps_str = None
          then (None, tr3)
          else
            (case parse_video_attributes env (the video_width_str) (the video_height_str)
                    (the video_fps_str) of
               None \<Rightarrow> (None, tr3)
             | Some (video_width, video_height, frame_rate) \<Rightarrow>
                 (let temp_black_video = path_join (mix_dir env)
                        (''temp_black_'' @ video_name @ ''_'' @ str_int (clock env) @ ''.mp4'');
                      temp_concat_video = path_join (mix_dir env)
                        (''temp_concat_'' @ video_name @ ''_'' @ str_int (clock env) @ ''.mp4'');
                      list_file_path = path_join (mix_dir env)
                        (''temp_list_'' @ video_name @ ''_'' @ str_int (clock env) @ ''.txt'');
                      black_cmd = [''-f'', ''lavfi'', ''-i'',
                        ''color=c=black:s='' @ str_int video_width @ ''x'' @ str_int video_height
                          @ '':d='' @ format6 env duration_diff,
                        ''-r'', float_text env frame_rate, ''-pix_fmt'', ''yuv420p'', temp_black_video]
                  in case run_ffmpeg_command env black_cmd tr3 of
                       (black_ok, tr4) \<Rightarrow>
                         if \<not> black_ok then (None, tr4)
                         else if \<not> writable env list_file_path then (None, tr4)
                         else
                           (let concat_cmd = [''-f'', ''concat'', ''-safe'', ''0'', ''-i'',
                                  list_file_path, ''-c'', ''copy'', temp_concat_video]
                            in case run_ffmpeg_command env concat_cmd tr4 of
                                 (concat_ok, tr5) \<Rightarrow>
                                   if \<not> concat_ok then (None, tr5)
                                   else (Some temp_concat_video, tr5)))))))"

definition final_merge_cmd :: "bool \<Rightarrow> bool \<Rightarrow> string \<Rightarrow> string \<Rightarrow> string \<Rightarrow> string \<Rightarrow> string list" where
  "final_merge_cmd original_audio_exists extended video_input_for_final_cmd
       combined_external_audio_path abs_video_file output_file =
     (if original_audio_exists then
        (if extended then
           [''-i'', video_input_for_final_cmd, ''-i'', combined_external_audio_path,
            ''-i'', abs_video_file,
            ''-filter_complex'', ''[2:a][1:a]amix=inputs=2:duration=longest[a_out]'',
            ''-map'', ''0:v:0'', ''-map'', ''[a_out]'',
            ''-c:v'', ''copy'', ''-c:a'', ''aac'', ''-b:a'', ''192k'', output_file]
         else
           [''-i'', abs_video_file, ''-i'', combined_external_audio_path,
            ''-filter_complex'', ''[0:a][1:a]amix=inputs=2:duration=longest[a_out]'',
            ''-map'', ''0:v:0'', ''-map'', ''[a_out]'',
            ''-c:v'', ''copy'', ''-c:a'', ''aac'', ''-b:a'', ''192k'', output_file])
      else
        [''-i'', video_input_for_final_cmd, ''-i'', combined_external_audio_path,
         ''-map'', ''0:v:0'', ''-map'', ''1:a:0'',
         ''-c:v'', ''copy'', ''-c:a'', ''aac'', ''-b:a'', ''192k'', output_file])"

text \<open>Step 4: the final command is run and decides between success and failed.\<close>

definition final_merge ::
  "script_env \<Rightarrow> bool \<Rightarrow> bool \<Rightarrow> string \<Rightarrow> string \<Rightarrow> string \<Rightarrow> string \<Rightarrow> string list list
     \<Rightarrow> status \<times> string list list" where
  "final_merge env original_audio_exists extended video_input_for_final_cmd
       combined_external_audio_path abs_video_file output_file tr =
     (case run_ffmpeg_command env
             (final_merge_cmd original_audio_exists extended video_input_for_final_cmd
                combined_external_audio_path abs_video_file output_file) tr of
        (merged, tr1) \<Rightarrow>
          if merged
          then (success,
                snd (run_ffprobe env output_file ''format=duration'' ''v'' 0 default_format tr1))
          else (failed, tr1))"

definition process_video_task :: "script_env \<Rightarrow> string \<Rightarrow> status \<times> string list list" where
  "process_video_task env video_file =
     (let task_id = video_file;
          video_name = splitext_root task_id;
          output_file = path_join (mix_dir env) task_id;
          abs_video_file = path_join (work_dir env) video_file
      in case find_and_mix_audio env video_name [] of
           ((combined_external_audio_path, temp_external_audio_to_clean), tr0) \<Rightarrow>
             if combined_external_audio_path = None then (skipped, tr0)
             else
     (case run_ffprobe env abs_video_file ''format=duration'' ''v'' 0 default_format tr0 of
        (video_duration_str, tr1) \<Rightarrow>
     (case run_ffprobe env abs_video_file ''format=duration'' ''a'' 0 default_format tr1 of
        (original_audio, tr2) \<Rightarrow>
     (case run_ffprobe env (the combined_external_audio_path) ''format=duration'' ''a'' 0
             default_format tr2 of
        (external_audio_duration_str, tr3) \<Rightarrow>
          if video_duration_str = None \<or> external_audio_duration_str = None then (failed, tr3)
          else
            (case (parse_float env (the video_duration_str),
                   parse_float env (the external_audio_duration_str)) of
               (Some video_duration, Some external_audio_duration) \<Rightarrow>
                 (let original_audio_exists = (original_audio \<noteq> None)
                  in if external_audio_duration > video_duration + 1 / 10 then
                       (case extend_video env video_name abs_video_file
                               (external_audio_duration - video_duration) tr3 of
                          (None, tr4) \<Rightarrow> (failed, tr4)
                        | (Some temp_concat_video, tr4) \<Rightarrow>
                            final_merge env original_audio_exists True temp_concat_video
                              (the combined_external_audio_path) abs_video_file output_file tr4)
                     else final_merge env original_audio_exists False abs_video_file
                            (the combined_external_audio_path) abs_video_file output_file tr3)
             | _ \<Rightarrow> (failed, tr3))))))"

section \<open>Example sessions\<close>

text \<open>
  The video and clips of the repository's planner tests, and a stand-in runtime and host
  (floats printed by their integer part, constant generator streams) to evaluate plans on.
\<close>

definition demo_path :: "string \<Rightarrow> string \<Rightarrow> path" where
  "demo_path name ext = \<lparr>parent = ''.'', stem = name, suffix = ext\<rparr>"

definition demo_video :: VideoClip where
  "demo_video = \<lparr>video_file_path = demo_path ''demo'' ''.mp4'', video_display_name = ''demo.mp4'',
     video_duration_seconds = 5, fps = 25, resolution = (1920, 1080), has_audio = True,
     video_clip_id = ''v0''\<rparr>"

definition demo_audio :: "string \<Rightarrow> AudioCategory \<Rightarrow> real \<Rightarrow> int option \<Rightarrow> AudioClip" where
  "demo_audio name cat dur frame = \<lparr>audio_file_path = demo_path name ''.wav'', category = cat,
     audio_duration_seconds = dur, sample_rate = 48000, audio_display_name = name @ ''.wav'',
     start_frame = frame, source_start_seconds = 0, audio_clip_id = name\<rparr>"

definition demo_config :: TrackConfig where
  "demo_config = \<lparr>video_id = ''v0'', override_original = False, enable_limiter = True,
     music_random_seed = None, music_retry_limit = 3, music_random_enabled = False,
     music_length_mode = MATCH_VIDEO, music_length_value = None, music_start_offset = 0,
     video_audio_lead = 0\<rparr>"

definition demo_session :: "AudioClip list \<Rightarrow> TrackConfig \<Rightarrow> MixSession" where
  "demo_session clips cfg = \<lparr>video_clip = demo_video, audio_clips = clips, config = cfg,
     target_output = demo_path ''out'' ''.mp4'', session_id = ''s0''\<rparr>"

definition demo_runtime :: runtime where
  "demo_runtime = \<lparr>float_str = (\<lambda>x. str_int \<lfloor>x\<rfloor> @ ''.0''),
     fixed3 = (\<lambda>x. str_int \<lfloor>x\<rfloor> @ ''.000''), seeded_random = (\<lambda>seed k. 1 / 2)\<rparr>"

definition demo_host :: host where
  "demo_host = \<lparr>uuid4_hex = ''0f'', unseeded_random = (\<lambda>i k. 1 / 4)\<rparr>"



text \<open>A seeded configuration with the random music start on, and a second host.\<close>

definition seeded_config :: TrackConfig where
  "seeded_config = demo_config\<lparr>music_random_seed := Some 7, music_random_enabled := True\<rparr>"

definition seeded_session :: MixSession where
  "seeded_session = demo_session
     [demo_audio ''se'' SE 6 (Some 0), demo_audio ''music'' MUSIC 20 (Some 0)] seeded_config"

definition other_host :: host where
  "other_host = \<lparr>uuid4_hex = ''a7'', unseeded_random = (\<lambda>i k. 3 / 4)\<rparr>"


text \<open>One effect clip with no start frame, no trim and no lead; the original is overridden.\<close>

definition plain_session :: MixSession where
  "plain_session = demo_session [demo_audio ''se'' SE 3 None] (demo_config\<lparr>override_original := True\<rparr>)"



text \<open>
  Scenario A of the planner tests: a 6 s effect on the 5 s video, original audio kept.
  Three external tools: one whose concatenation fails after the black clip was written,
  one that cannot be started for the final invocation, one that always succeeds (each
  successful run leaves its output file, the last argument).
\<close>

definition scenario_A :: MixSession where
  "scenario_A = demo_session [demo_audio ''se'' SE 6 (Some 0)] demo_config"

definition ok_result :: FFmpegResult where
  "ok_result = \<lparr>return_code = 0, stdout = [], stderr = []\<rparr>"

definition failed_result :: FFmpegResult where
  "failed_result = \<lparr>return_code = 1, stdout = [], stderr = ''Invalid data found when processing input''\<rparr>"

definition concat_failing_tool :: tool where
  "concat_failing_tool cmd fs =
     (if ''lavfi'' \<in> set cmd then Inr (ok_result, insert (last cmd) fs)
      else Inr (failed_result, fs))"

definition mux_raising_tool :: tool where
  "mux_raising_tool cmd fs =
     (if cmd ! 5 = ''-f'' then Inr (ok_result, insert (last cmd) fs) else Inl OSError)"

definition healthy_tool :: tool where
  "healthy_tool cmd fs = Inr (ok_result, insert (last cmd) fs)"

definition start_world :: world where
  "start_world = \<lparr>files = {''./demo.mp4'', ''./se.wav''}, invocations = [], logged = []\<rparr>"


text \<open>
  A video whose probe failed (duration 0, as the importer registers it) with a 10 s music
  clip and the random start on; and a configuration whose retry limit is 0.
\<close>

definition zero_video_session :: MixSession where
  "zero_video_session =
     \<lparr>video_clip = demo_video\<lparr>video_duration_seconds := 0, fps := 0, resolution := (0, 0),
                                has_audio := False\<rparr>,
      audio_clips = [demo_audio ''music'' MUSIC 10 None],
      config = demo_config\<lparr>music_random_enabled := True\<rparr>,
      target_output = demo_path ''out'' ''.mp4'', session_id = ''s1''\<rparr>"

definition no_retry_session :: MixSession where
  "no_retry_session = demo_session [demo_audio ''music'' MUSIC 20 (Some 0)]
     (demo_config\<lparr>music_random_enabled := True, music_retry_limit := 0\<rparr>)"


text \<open>
  Surroundings of the batch script: the audio directory holds the given names, every
  command returns the given code with the output \<open>5.0\<close>.
\<close>

definition demo_env :: "string list \<Rightarrow> int \<Rightarrow> script_env" where
  "demo_env names rc =
     \<lparr>audio_dir = ''/w/~audio'', mix_dir = ''/w/~mix'', work_dir = ''/w'',
      listdir = (\<lambda>d. if d = ''/w/~audio'' then Some names else None),
      isfile = (\<lambda>f. True),
      external = (\<lambda>cmd. Some (rc, ''5.0'', if rc = 0 then [] else ''Invalid data found'')),
      clock = 17,
      parse_float = (\<lambda>s. if s = ''5.0'' then Some 5 else None),
      parse_int = (\<lambda>s. None),
      format6 = (\<lambda>x. str_int \<lfloor>x\<rfloor> @ ''.000000''),
      float_text = (\<lambda>x. str_int \<lfloor>x\<rfloor> @ ''.0''),
      writable = (\<lambda>f. True)\<rparr>"


text \<open>A session whose only clip is a 20 s music track on the 5 s video.\<close>

definition music_only :: MixSession where
  "music_only = demo_session [demo_audio ''music'' MUSIC 20 (Some 0)] demo_config"

section \<open>Notions used in the statements\<close>

text \<open>
  The chains of the clips in registry order (label and fragments of each), whether the
  original soundtrack takes part, the labels that reach the final mix, and the text of
  the mixing fragment.
\<close>

definition chains_from ::
  "runtime \<Rightarrow> host \<Rightarrow> MixSession \<Rightarrow> nat \<Rightarrow> AudioClip list \<Rightarrow> (string \<times> string list) list" where
  "chains_from rt h s i cs = map (\<lambda>(j, c). build_clip_filters rt h j c s) (List.enumerate i cs)"

definition clip_chains :: "runtime \<Rightarrow> host \<Rightarrow> MixSession \<Rightarrow> (string \<times> string list) list" where
  "clip_chains rt h s = chains_from rt h s 0 (audio_clips s)"

definition original_included :: "MixSession \<Rightarrow> bool" where
  "original_included s \<longleftrightarrow> \<not> override_original (config s) \<and> has_audio (video_clip s)"

definition chain_labels :: "runtime \<Rightarrow> host \<Rightarrow> MixSession \<Rightarrow> string list" where
  "chain_labels rt h s =
     map fst (clip_chains rt h s)
       @ (if original_included s then [fst (build_original_filters s)] else [])"

definition mix_text :: "string list \<Rightarrow> bool \<Rightarrow> string" where
  "mix_text labels limiter =
     concat (map (\<lambda>label. ''['' @ label @ '']'') labels)
       @ ''amix=inputs='' @ str_nat (length labels)
       @ '':normalize='' @ (if limiter then ''1'' else ''0'') @ ''[aout]''"


text \<open>
  The stream mapping of a command line: the arguments that follow each \<open>-map\<close>.
  \<open>code_map_targets\<close> is the three-way branch of the executor and of the preview;
  \<open>spec_map_targets\<close> is the rule in the words of the specification, whose second
  case asks for exactly one audio input.
\<close>

fun map_targets :: "string list \<Rightarrow> string list" where
  "map_targets [] = []"
| "map_targets [x] = []"
| "map_targets (x # v # rest) =
     (if x = ''-map'' then v # map_targets rest else map_targets (v # rest))"




text \<open>
  The random music offset in the words of the specification: zero when the clip is not
  longer than the video, else the generator is called \<open>retry_limit\<close> times on
  \<open>[0, max(0, clip.duration - video.duration)]\<close> and the last draw is kept.
\<close>

definition spec_random_offset_run :: "(nat \<Rightarrow> real) \<Rightarrow> int \<Rightarrow> real \<Rightarrow> real \<Rightarrow> nat \<times> real" where
  "spec_random_offset_run rng retry_limit clip_duration video_duration =
     (if clip_duration \<le> video_duration then (0, 0)
      else retry_loop rng (max 0 (clip_duration - video_duration)) (nat retry_limit) (0, 0))"


text \<open>
  For the batch script: the full command line of an ffmpeg run and of a probe, whether a
  command returned 0, the ffmpeg runs in a list of command lines, the audio files found
  for a video name (none when the directory cannot be listed), and the pre-mix command.
\<close>

definition full_ffmpeg :: "string list \<Rightarrow> string list" where
  "full_ffmpeg command_list = [''ffmpeg'', ''-hide_banner'', ''-loglevel'', ''warning'', ''-y''] @ command_list"

definition returned_zero :: "script_env \<Rightarrow> string list \<Rightarrow> bool" where
  "returned_zero env cmd \<longleftrightarrow> (case external env cmd of None \<Rightarrow> False | Some (rc, out, err) \<Rightarrow> rc = 0)"

definition ffmpeg_runs :: "string list list \<Rightarrow> string list list" where
  "ffmpeg_runs tr = filter (\<lambda>cmd. take 1 cmd = [''ffmpeg'']) tr"

definition found_audios :: "script_env \<Rightarrow> string \<Rightarrow> string list" where
  "found_audios env video_name =
     (case listdir env (audio_dir env) of
        None \<Rightarrow> [] | Some names \<Rightarrow> matching_audios env video_name names)"

definition premix_of :: "script_env \<Rightarrow> string \<Rightarrow> string list" where
  "premix_of env video_name =
     full_ffmpeg (premix_command (found_audios env video_name)
       (path_join (mix_dir env)
          (''temp_combined_'' @ video_name @ ''_'' @ str_int (clock env) @ ''.wav'')))"

definition probe_cmd :: "string \<Rightarrow> string \<Rightarrow> string \<Rightarrow> nat \<Rightarrow> string \<Rightarrow> string list" where
  "probe_cmd input_file show_entries stream_type stream_index format_option =
     [''ffprobe'', ''-v'', ''error'', ''-select_streams'',
      stream_type @ '':'' @ str_nat stream_index,
      ''-show_entries'', show_entries, ''-of'', format_option, input_file]"



section \<open>Decimal text of integers\<close>

lemma digit_char_inj: "a < 10 \<Longrightarrow> b < 10 \<Longrightarrow> digit_char a = digit_char b \<Longrightarrow> a = b"
proof -
  assume "a < 10" "b < 10" "digit_char a = digit_char b"
  moreover have "distinct ''0123456789''" by simp
  ultimately show "a = b"
    unfolding digit_char_def by (simp add: nth_eq_iff_index_eq)
qed

lemma digit_char_set: "d < 10 \<Longrightarrow> digit_char d \<in> set ''0123456789''"
  unfolding digit_char_def by (rule nth_mem) simp

lemma str_nat_nonempty: "str_nat n \<noteq> []"
  by (subst str_nat.simps) simp

lemma str_nat_digits: "set (str_nat n) \<subseteq> set ''0123456789''"
proof (induction n rule: str_nat.induct)
  case (1 n)
  show ?case
  proof (cases "n < 10")
    case True
    then show ?thesis using digit_char_set [of n] by (subst str_nat.simps) simp
  next
    case False
    have "n mod 10 < 10" by simp
    from digit_char_set [OF this] 1 False show ?thesis
      by (subst str_nat.simps) simp
  qed
qed

lemma str_nat_small: "n < 10 \<Longrightarrow> str_nat n = [digit_char n]"
  by (subst str_nat.simps) simp

lemma str_nat_big: "\<not> n < 10 \<Longrightarrow> str_nat n = str_nat (n div 10) @ [digit_char (n mod 10)]"
  by (subst str_nat.simps) simp

lemma str_nat_inj: "str_nat n = str_nat m \<Longrightarrow> n = m"
proof (induction n arbitrary: m rule: str_nat.induct)
  case (1 n)
  show ?case
  proof (cases "n < 10")
    case n: True
    show ?thesis
    proof (cases "m < 10")
      case True
      with n 1(2) show ?thesis by (simp add: str_nat_small digit_char_inj)
    next
      case False
      with n 1(2) str_nat_nonempty [of "m div 10"] show ?thesis
        by (simp add: str_nat_small str_nat_big)
    qed
  next
    case n: False
    show ?thesis
    proof (cases "m < 10")
      case True
      with n 1(2) str_nat_nonempty [of "n div 10"] show ?thesis
        by (simp add: str_nat_small str_nat_big)
    next
      case False
      with n 1(2) have eq: "str_nat (n div 10) = str_nat (m div 10)"
        and d: "digit_char (n mod 10) = digit_char (m mod 10)"
        by (simp_all add: str_nat_big)
      from 1(1) [OF n eq] have "n div 10 = m div 10" .
      moreover from d have "n mod 10 = m mod 10" by (simp add: digit_char_inj)
      ultimately show ?thesis by (metis div_mult_mod_eq)
    qed
  qed
qed

lemma str_nat_no_letter: "CHR ''a'' \<notin> set (str_nat n)"
  using str_nat_digits [of n] by auto

lemma str_nat_head: "str_nat n = c # cs \<Longrightarrow> c \<noteq> CHR ''a''"
  using str_nat_no_letter [of n] by auto

section \<open>Filter chains of a plan\<close>

lemma apply_filter_ref:
  "current_ref (apply_filter ol e st) = ''['' @ ol @ ''_flt_'' @ str_nat (label_counter st + 1) @ '']''"
  by (simp add: apply_filter_def next_label_def Let_def)

lemma apply_filter_filters:
  "filters (apply_filter ol e st) =
     filters st @ [current_ref st @ e @ ''['' @ ol @ ''_flt_'' @ str_nat (label_counter st + 1) @ '']'']"
  by (simp add: apply_filter_def next_label_def Let_def)

lemma apply_filter_counter:
  "label_counter (apply_filter ol e st) = label_counter st + 1"
  by (simp add: apply_filter_def next_label_def Let_def)

lemma str_nat_append_neq [simp]: "str_nat n @ xs \<noteq> CHR ''a'' # ys"
proof
  assume eq: "str_nat n @ xs = CHR ''a'' # ys"
  obtain c cs where "str_nat n = c # cs"
    using str_nat_nonempty [of n] by (cases "str_nat n") auto
  with eq str_nat_head [of n c cs] show False by simp
qed

lemma build_clip_filters_label: "fst (build_clip_filters rt h i c s) = ''a'' @ str_nat i"
  by (simp add: build_clip_filters_def Let_def)

lemma build_clip_filters_last:
  "\<exists>body ref. snd (build_clip_filters rt h i c s) = body @ [ref @ ''anull[a'' @ str_nat i @ '']'']"
  by (auto simp add: build_clip_filters_def Let_def apply_filter_ref apply_filter_filters
        apply_filter_counter split: option.splits)

lemma build_clip_filters_nonempty: "snd (build_clip_filters rt h i c s) \<noteq> []"
  using build_clip_filters_last [of rt h i c s] by auto

lemma build_clip_filters_plain:
  assumes "clip_source_offset rt h i c s \<le> 0"
    and "category c \<noteq> MUSIC \<or> music_length_trim rt s = None"
    and "clip_delay_seconds c s \<le> 0"
  shows "build_clip_filters rt h i c s =
           (''a'' @ str_nat i, [''['' @ str_nat (i + 1) @ '':a]anull[a'' @ str_nat i @ '']''])"
  using assms by (auto simp add: build_clip_filters_def Let_def split: option.splits)

lemma chains_from_Nil [simp]: "chains_from rt h s i [] = []"
  by (simp add: chains_from_def)

lemma chains_from_Cons [simp]:
  "chains_from rt h s i (c # cs) = build_clip_filters rt h i c s # chains_from rt h s (Suc i) cs"
  by (simp add: chains_from_def)

lemma clips_loop_chains_from:
  "clips_loop rt h s i cs (p, outs) =
     (p\<lparr>audio_inputs := audio_inputs p @ map audio_file_path cs,
        audio_filters := audio_filters p @ concat (map snd (chains_from rt h s i cs))\<rparr>,
      outs @ map fst (chains_from rt h s i cs))"
  by (induction cs arbitrary: i p outs) (auto split: prod.splits)

lemma str_int_01: "str_int 1 = ''1''" "str_int 0 = ''0''"
  by (simp_all add: str_int_def str_nat_small digit_char_def)

lemma clips_loop_chains:
  "clips_loop rt h s 0 (audio_clips s) (p, []) =
     (p\<lparr>audio_inputs := audio_inputs p @ map audio_file_path (audio_clips s),
        audio_filters := audio_filters p @ concat (map snd (clip_chains rt h s))\<rparr>,
      map fst (clip_chains rt h s))"
  by (simp add: clips_loop_chains_from clip_chains_def)

lemma build_plan_include:
  "include_original_audio (build_plan rt h s) = original_included s"
  by (simp add: build_plan_def Let_def clips_loop_chains new_MixPlan_def original_included_def
      split: prod.splits)

lemma build_plan_inputs:
  "audio_inputs (build_plan rt h s) = map audio_file_path (audio_clips s)"
  by (simp add: build_plan_def Let_def clips_loop_chains new_MixPlan_def split: prod.splits)

lemma build_plan_filters:
  "audio_filters (build_plan rt h s) =
     concat (map snd (clip_chains rt h s))
     @ (if original_included s then snd (build_original_filters s) else [])
     @ (if chain_labels rt h s \<noteq> []
        then [mix_text (chain_labels rt h s) (enable_limiter (config s))] else [])"
  by (simp add: build_plan_def Let_def clips_loop_chains new_MixPlan_def original_included_def
      chain_labels_def mix_text_def mix_fragment_def str_int_01 split: prod.splits)

lemma build_original_filters_eq:
  "build_original_filters s =
     (''orig_audio'',
      if video_audio_lead (config s) > 0
      then [''[0:a]adelay='' @ str_int (py_int (video_audio_lead (config s) * 1000)) @ ''|''
              @ str_int (py_int (video_audio_lead (config s) * 1000)) @ ''[orig_audio_delay]'',
            ''[orig_audio_delay]anull[orig_audio]'']
      else [''[0:a]anull[orig_audio]''])"
  by (simp add: build_original_filters_def Let_def max_def)

section \<open>Properties of the black-frame extension\<close>




lemma se_vo_end_loop_music:
  "\<forall>c \<in> set clips. category c = MUSIC \<Longrightarrow> se_vo_end_loop rate clips acc = acc"
  by (induction clips arbitrary: acc) auto

lemma se_vo_end_loop_filter:
  "se_vo_end_loop rate (filter (\<lambda>c. category c \<noteq> MUSIC) clips) acc = se_vo_end_loop rate clips acc"
  by (induction clips arbitrary: acc) (auto simp: Let_def)

lemma build_plan_duration:
  "plan_black_extension_duration (build_plan rt h s) = black_extension_duration s"
  by (simp add: build_plan_def Let_def clips_loop_chains_from split: prod.splits)

lemma build_plan_needs:
  "needs_black_extension (build_plan rt h s) \<longleftrightarrow> black_extension_duration s > 0"
  by (simp add: build_plan_def Let_def clips_loop_chains_from split: prod.splits)




text \<open>
  Claim C3.  Music clips never drive the extension: the plan's extension duration is the
  one computed with every music clip removed from the session, and a session whose clips
  are all music gets a plan with no extension, whatever the durations of those clips.
\<close>

theorem music_never_drives_extension:
  "plan_black_extension_duration (build_plan rt h s) =
     black_extension_duration (s\<lparr>audio_clips := filter (\<lambda>c. category c \<noteq> MUSIC) (audio_clips s)\<rparr>)
   \<and> ((\<forall>c \<in> set (audio_clips s). category c = MUSIC) \<longrightarrow>
        \<not> needs_black_extension (build_plan rt h s)
        \<and> plan_black_extension_duration (build_plan rt h s) = 0)"
proof -
  have "black_extension_duration s = 0" if "\<forall>c \<in> set (audio_clips s). category c = MUSIC"
    using that by (simp add: black_extension_duration_def Let_def se_vo_end_loop_music)
  moreover have "black_extension_duration s =
      black_extension_duration (s\<lparr>audio_clips := filter (\<lambda>c. category c \<noteq> MUSIC) (audio_clips s)\<rparr>)"
    by (simp add: black_extension_duration_def Let_def se_vo_end_loop_filter)
  ultimately show ?thesis
    by (simp add: build_plan_duration build_plan_needs)
qed

theorem music_never_drives_extension_witness:
  "map category (audio_clips music_only) = [MUSIC]
   \<and> audio_duration_seconds (hd (audio_clips music_only)) > video_duration_seconds (video_clip music_only)
   \<and> \<not> needs_black_extension (build_plan demo_runtime demo_host music_only)
   \<and> plan_black_extension_duration (build_plan demo_runtime demo_host music_only) = 0"
  using music_never_drives_extension [of demo_runtime demo_host music_only]
  by (simp add: music_only_def demo_session_def demo_audio_def demo_video_def)

section \<open>Properties of the planner\<close>

lemma random_music_offset_seeded:
  assumes "music_random_seed (config s) \<noteq> None"
  shows "random_music_offset rt h1 i c s = random_music_offset rt h2 i c s"
  using assms
  by (auto simp add: random_music_offset_def random_music_offset_run_def make_rng_def Let_def)

lemma clip_source_offset_seeded:
  assumes "music_random_seed (config s) \<noteq> None"
  shows "clip_source_offset rt h1 i c s = clip_source_offset rt h2 i c s"
  using random_music_offset_seeded [OF assms, of rt h1 i c h2]
  by (simp add: clip_source_offset_def)

lemma build_clip_filters_seeded:
  assumes "music_random_seed (config s) \<noteq> None"
  shows "build_clip_filters rt h1 i c s = build_clip_filters rt h2 i c s"
  unfolding build_clip_filters_def clip_source_offset_seeded [OF assms, of rt h1 i c h2] ..

lemma clip_chains_seeded:
  assumes "music_random_seed (config s) \<noteq> None"
  shows "clip_chains rt h1 s = clip_chains rt h2 s"
  unfolding clip_chains_def chains_from_def
  using build_clip_filters_seeded [OF assms, of rt h1 _ _ h2] by simp

text \<open>
  Claim C5.  With a seed configured, the filter-chain text of the plan does not depend on
  anything outside the session and the runtime: two builds on hosts that differ in their
  unique tokens and in their unseeded generators give the same sequence of fragments.
\<close>

theorem seeded_plan_filters_deterministic:
  assumes "music_random_seed (config s) \<noteq> None"
  shows "audio_filters (build_plan rt h1 s) = audio_filters (build_plan rt h2 s)"
  using clip_chains_seeded [OF assms, of rt h1 h2]
  by (simp add: build_plan_filters chain_labels_def)

theorem seeded_plan_filters_deterministic_witness:
  "music_random_seed (config seeded_session) = Some 7
   \<and> uuid4_hex demo_host \<noteq> uuid4_hex other_host
   \<and> unseeded_random demo_host 1 0 \<noteq> unseeded_random other_host 1 0
   \<and> audio_filters (build_plan demo_runtime demo_host seeded_session)
       = audio_filters (build_plan demo_runtime other_host seeded_session)"
  using seeded_plan_filters_deterministic [of seeded_session demo_runtime demo_host other_host]
  by (simp add: seeded_session_def seeded_config_def demo_session_def demo_host_def other_host_def)

lemma orig_label_not_clip_label: "''orig_audio'' \<notin> set (map fst (chains_from rt h s i cs))"
  by (induction cs arbitrary: i) (auto simp: build_clip_filters_label)

text \<open>
  Claim C7.  The plan carries a chain for the original soundtrack exactly when the
  original is not overridden and the video has audio.  Its fragments follow those of the
  clips; the chain is the delay by the global lead, present only for a positive lead,
  and the terminating fragment with the chain's own label: no trim, no source offset.
\<close>

theorem original_soundtrack_chain:
  "include_original_audio (build_plan rt h s)
     = (\<not> override_original (config s) \<and> has_audio (video_clip s))
   \<and> audio_filters (build_plan rt h s) =
       concat (map snd (clip_chains rt h s))
       @ (if include_original_audio (build_plan rt h s) then snd (build_original_filters s) else [])
       @ (if chain_labels rt h s \<noteq> []
          then [mix_text (chain_labels rt h s) (enable_limiter (config s))] else [])
   \<and> (''orig_audio'' \<in> set (chain_labels rt h s)) = include_original_audio (build_plan rt h s)
   \<and> build_original_filters s =
       (''orig_audio'',
        if video_audio_lead (config s) > 0
        then [''[0:a]adelay='' @ str_int (py_int (video_audio_lead (config s) * 1000)) @ ''|''
                @ str_int (py_int (video_audio_lead (config s) * 1000)) @ ''[orig_audio_delay]'',
              ''[orig_audio_delay]anull[orig_audio]'']
        else [''[0:a]anull[orig_audio]''])"
proof -
  have lab: "(''orig_audio'' \<in> set (chain_labels rt h s)) = original_included s"
    using orig_label_not_clip_label [of rt h s 0 "audio_clips s"]
    by (simp add: chain_labels_def clip_chains_def build_original_filters_eq)
  show ?thesis
    using lab build_original_filters_eq [of s]
    by (simp add: build_plan_include build_plan_filters original_included_def)
qed

lemma chain_labels_from_distinct:
  "distinct (map fst (chains_from rt h s i cs))
   \<and> (\<forall>l \<in> set (map fst (chains_from rt h s i cs)). \<exists>j \<ge> i. l = ''a'' @ str_nat j)"
proof (induction cs arbitrary: i)
  case Nil
  show ?case by simp
next
  case (Cons c cs)
  have tl: "\<forall>l \<in> set (map fst (chains_from rt h s (Suc i) cs)). \<exists>j \<ge> Suc i. l = ''a'' @ str_nat j"
    using Cons [of "Suc i"] by blast
  have "fst (build_clip_filters rt h i c s) \<notin> set (map fst (chains_from rt h s (Suc i) cs))"
  proof
    assume "fst (build_clip_filters rt h i c s) \<in> set (map fst (chains_from rt h s (Suc i) cs))"
    with tl obtain j where "j \<ge> Suc i" "fst (build_clip_filters rt h i c s) = ''a'' @ str_nat j"
      by blast
    then have "str_nat i = str_nat j" by (simp add: build_clip_filters_label)
    from str_nat_inj [OF this] \<open>j \<ge> Suc i\<close> show False by simp
  qed
  moreover have "\<exists>j \<ge> i. fst (build_clip_filters rt h i c s) = ''a'' @ str_nat j"
    by (rule exI [of _ i]) (simp add: build_clip_filters_label)
  moreover have "\<forall>l \<in> set (map fst (chains_from rt h s (Suc i) cs)). \<exists>j \<ge> i. l = ''a'' @ str_nat j"
    using tl by (meson Suc_leD)
  ultimately show ?case using Cons [of "Suc i"] by simp
qed

lemma chains_from_nonempty: "\<forall>ch \<in> set (chains_from rt h s i cs). snd ch \<noteq> []"
  by (induction cs arbitrary: i) (auto simp: build_clip_filters_nonempty)

lemma clip_chains_length: "length (clip_chains rt h s) = length (audio_clips s)"
  by (simp add: clip_chains_def chains_from_def)

lemma build_plan_filters_nonempty:
  assumes "audio_clips s \<noteq> []"
  shows "audio_filters (build_plan rt h s) \<noteq> []"
proof -
  from assms have "clip_chains rt h s \<noteq> []"
    using clip_chains_length [of rt h s] by auto
  then have "chain_labels rt h s \<noteq> []" by (simp add: chain_labels_def)
  then show ?thesis by (simp add: build_plan_filters)
qed

text \<open>
  Claim C10.  The chain of every clip has at least one fragment: its last fragment is an
  \<open>anull\<close> that renames to the label \<open>a{index}\<close>, and it is the only fragment when no
  trim, length limit or delay applies.  The labels of the clips are pairwise distinct.
  So a plan with an audio input has a filter, and the command the executor builds from a
  planner's plan maps either the mix output or the video alone, never input 1 directly.
\<close>

theorem every_clip_chain_ends_in_anull:
  "fst (build_clip_filters rt h i c s) = ''a'' @ str_nat i
   \<and> (\<exists>body ref. snd (build_clip_filters rt h i c s) = body @ [ref @ ''anull[a'' @ str_nat i @ '']''])
   \<and> (clip_source_offset rt h i c s \<le> 0
        \<and> (category c \<noteq> MUSIC \<or> music_length_trim rt s = None)
        \<and> clip_delay_seconds c s \<le> 0
       \<longrightarrow> snd (build_clip_filters rt h i c s) = [''['' @ str_nat (i + 1) @ '':a]anull[a'' @ str_nat i @ '']''])
   \<and> distinct (map fst (clip_chains rt h s))
   \<and> audio_inputs (build_plan rt h s) = map audio_file_path (audio_clips s)
   \<and> (audio_inputs (build_plan rt h s) \<noteq> [] \<longrightarrow> audio_filters (build_plan rt h s) \<noteq> [])
   \<and> (\<forall>video_in output_path.
        mix_command (build_plan rt h s) video_in output_path =
          [''-i'', path_str video_in]
          @ concat (map (\<lambda>audio_path. [''-i'', path_str audio_path]) (audio_inputs (build_plan rt h s)))
          @ (if audio_filters (build_plan rt h s) \<noteq> [] then
               [''-filter_complex'', join '';'' (audio_filters (build_plan rt h s)),
                ''-map'', ''0:v:0'', ''-map'', ''[aout]'']
             else [''-map'', ''0:v:0''])
          @ output_args (build_plan rt h s) @ [path_str output_path])"
proof -
  have plain: "clip_source_offset rt h i c s \<le> 0
        \<and> (category c \<noteq> MUSIC \<or> music_length_trim rt s = None)
        \<and> clip_delay_seconds c s \<le> 0
       \<longrightarrow> snd (build_clip_filters rt h i c s) = [''['' @ str_nat (i + 1) @ '':a]anull[a'' @ str_nat i @ '']'']"
    using build_clip_filters_plain [of rt h i c s] by auto
  have dist: "distinct (map fst (clip_chains rt h s))"
    using chain_labels_from_distinct [of rt h s 0 "audio_clips s"] by (simp add: clip_chains_def)
  have ne: "audio_inputs (build_plan rt h s) \<noteq> [] \<longrightarrow> audio_filters (build_plan rt h s) \<noteq> []"
    using build_plan_filters_nonempty [of s rt h] by (simp add: build_plan_inputs)
  have label: "audio_output_label (build_plan rt h s) = ''aout''"
    by (simp add: build_plan_def Let_def clips_loop_chains new_MixPlan_def split: prod.splits)
  have cmd: "mix_command (build_plan rt h s) video_in output_path =
          [''-i'', path_str video_in]
          @ concat (map (\<lambda>audio_path. [''-i'', path_str audio_path]) (audio_inputs (build_plan rt h s)))
          @ (if audio_filters (build_plan rt h s) \<noteq> [] then
               [''-filter_complex'', join '';'' (audio_filters (build_plan rt h s)),
                ''-map'', ''0:v:0'', ''-map'', ''[aout]'']
             else [''-map'', ''0:v:0''])
          @ output_args (build_plan rt h s) @ [path_str output_path]" for video_in output_path
    using ne by (simp add: mix_command_def label)
  from plain dist ne cmd build_clip_filters_last [of rt h i c s] show ?thesis
    by (simp add: build_clip_filters_label build_plan_inputs)
qed

theorem every_clip_chain_ends_in_anull_witness:
  "audio_clips plain_session \<noteq> []
   \<and> snd (build_clip_filters demo_runtime demo_host 0 (hd (audio_clips plain_session)) plain_session)
       = [''[1:a]anull[a0]'']
   \<and> audio_filters (build_plan demo_runtime demo_host plain_session) \<noteq> []"
  using every_clip_chain_ends_in_anull
    [of demo_runtime demo_host 0 "hd (audio_clips plain_session)" plain_session]
  by (simp add: plain_session_def demo_session_def demo_audio_def demo_config_def demo_video_def
      clip_source_offset_def clip_delay_seconds_def start_seconds_def str_nat_small digit_char_def)

section \<open>The random music start\<close>

lemma retry_loop_eq:
  "retry_loop rng m n (k, b) = (if n = 0 then (k, b) else (k + n, uniform rng (k + n - 1) 0 m))"
  by (induction n arbitrary: k b) auto

lemma random_music_offset_run_eq:
  "random_music_offset_run rt h i c s =
     (if 0 < video_duration_seconds (video_clip s)
          \<and> video_duration_seconds (video_clip s) < audio_duration_seconds c
      then (nat (max (music_retry_limit (config s)) 1),
            (audio_duration_seconds c - video_duration_seconds (video_clip s))
              * make_rng rt h i (music_random_seed (config s))
                  (nat (max (music_retry_limit (config s)) 1) - 1))
      else (0, 0))"
  by (auto simp add: random_music_offset_run_def Let_def retry_loop_eq uniform_def max_def)

text \<open>
  Claim C6, amended.  For a music clip with the random start on: when the video duration
  is positive and the clip is longer than the video, the generator is called exactly
  \<open>max(music_retry_limit, 1)\<close> times and the offset is the last draw scaled to
  \<open>[0, clip.duration - video.duration]\<close>, earlier draws being discarded; in every
  other case (clip not longer than the video, or video duration not positive) the
  generator is not called and the offset is 0.  The offset is added to the source offset
  of the clip, and with draws in \<open>[0, 1]\<close> it lies in
  \<open>[0, max(0, clip.duration - video.duration)]\<close>.
\<close>

theorem random_offset_is_last_draw:
  "random_music_offset_run rt h i c s =
     (if 0 < video_duration_seconds (video_clip s)
          \<and> video_duration_seconds (video_clip s) < audio_duration_seconds c
      then (nat (max (music_retry_limit (config s)) 1),
            (audio_duration_seconds c - video_duration_seconds (video_clip s))
              * make_rng rt h i (music_random_seed (config s))
                  (nat (max (music_retry_limit (config s)) 1) - 1))
      else (0, 0))
   \<and> (category c = MUSIC \<and> music_random_enabled (config s) \<longrightarrow>
        clip_source_offset rt h i c s =
          source_start_seconds c + max 0 (music_start_offset (config s))
            + snd (random_music_offset_run rt h i c s))
   \<and> ((\<forall>k. 0 \<le> make_rng rt h i (music_random_seed (config s)) k
             \<and> make_rng rt h i (music_random_seed (config s)) k \<le> 1) \<longrightarrow>
        0 \<le> snd (random_music_offset_run rt h i c s)
        \<and> snd (random_music_offset_run rt h i c s)
             \<le> max 0 (audio_duration_seconds c - video_duration_seconds (video_clip s)))
   \<and> (audio_duration_seconds c \<le> video_duration_seconds (video_clip s) \<longrightarrow>
        random_music_offset_run rt h i c s = (0, 0))"
proof -
  let ?D = "audio_duration_seconds c" and ?V = "video_duration_seconds (video_clip s)"
  let ?rng = "make_rng rt h i (music_random_seed (config s))"
  have range: "0 \<le> snd (random_music_offset_run rt h i c s)
        \<and> snd (random_music_offset_run rt h i c s) \<le> max 0 (?D - ?V)"
    if "\<forall>k. 0 \<le> ?rng k \<and> ?rng k \<le> 1"
  proof (cases "0 < ?V \<and> ?V < ?D")
    case True
    let ?u = "?rng (nat (max (music_retry_limit (config s)) 1) - 1)"
    from that have u: "0 \<le> ?u" "?u \<le> 1" by auto
    from True have pos: "0 \<le> ?D - ?V" by simp
    have "(?D - ?V) * ?u \<le> (?D - ?V) * 1"
      using u(2) pos by (rule mult_left_mono)
    moreover have "0 \<le> (?D - ?V) * ?u" using pos u(1) by simp
    ultimately show ?thesis using True by (simp add: random_music_offset_run_eq)
  next
    case False
    then show ?thesis by (auto simp add: random_music_offset_run_eq)
  qed
  have c2: "category c = MUSIC \<and> music_random_enabled (config s) \<longrightarrow>
        clip_source_offset rt h i c s =
          source_start_seconds c + max 0 (music_start_offset (config s))
            + snd (random_music_offset_run rt h i c s)"
    by (simp add: clip_source_offset_def random_music_offset_def)
  have c3: "(\<forall>k. 0 \<le> ?rng k \<and> ?rng k \<le> 1) \<longrightarrow>
        0 \<le> snd (random_music_offset_run rt h i c s)
        \<and> snd (random_music_offset_run rt h i c s) \<le> max 0 (?D - ?V)"
    using range by blast
  have c4: "?D \<le> ?V \<longrightarrow> random_music_offset_run rt h i c s = (0, 0)"
    by (simp add: random_music_offset_run_eq)
  from random_music_offset_run_eq [of rt h i c s] c2 c3 c4 show ?thesis
    by blast
qed

theorem random_offset_is_last_draw_witness:
  "random_music_offset_run demo_runtime demo_host 1 (demo_audio ''music'' MUSIC 20 (Some 0))
      seeded_session = (3, 15 / 2)
   \<and> clip_source_offset demo_runtime demo_host 1 (demo_audio ''music'' MUSIC 20 (Some 0))
      seeded_session = 15 / 2"
  using random_offset_is_last_draw
     [of demo_runtime demo_host 1 "demo_audio ''music'' MUSIC 20 (Some 0)" seeded_session]
  by (simp add: seeded_session_def seeded_config_def demo_session_def demo_audio_def
      demo_video_def demo_config_def demo_runtime_def make_rng_def)

text \<open>
  The claim as the specification states it fails twice.  For the video of duration 0 and
  the 10 s clip the code returns 0 without a draw, where the specification samples
  \<open>[0, 10]\<close>; with a retry limit of 0 the code still calls the generator once.
\<close>

theorem random_offset_counterexample:
  "random_music_offset_run demo_runtime demo_host 0 (demo_audio ''music'' MUSIC 10 None)
      zero_video_session = (0, 0)
   \<and> spec_random_offset_run
        (make_rng demo_runtime demo_host 0 (music_random_seed (config zero_video_session)))
        (music_retry_limit (config zero_video_session)) 10 0 = (3, 5 / 2)
   \<and> fst (random_music_offset_run demo_runtime demo_host 0 (demo_audio ''music'' MUSIC 20 (Some 0))
        no_retry_session) = 1
   \<and> music_retry_limit (config no_retry_session) = 0"
  by (simp add: random_music_offset_run_eq spec_random_offset_run_def retry_loop_eq uniform_def
      zero_video_session_def no_retry_session_def demo_session_def demo_audio_def demo_video_def
      demo_config_def demo_host_def make_rng_def)

section \<open>Properties of the executor\<close>

lemma path_str_not_flag [simp]: "path_str p \<noteq> ''-map''"
proof
  assume "path_str p = ''-map''"
  then have "CHR ''/'' \<in> set ''-map''"
    unfolding path_str_def by (metis in_set_conv_decomp append_Cons append_Nil)
  then show False by simp
qed

lemma flag_not_path_str [simp]: "''-map'' \<noteq> path_str p"
  using path_str_not_flag [of p] by metis





lemma map_targets_pair:
  "map_targets (''-map'' # v # rest) = v # map_targets rest"
  by simp



lemma build_plan_paths:
  "black_clip_path (build_plan rt h s) =
     (if black_extension_duration s > 0
      then Some (joinpath (parent (video_file_path (video_clip s)))
                   (stem (video_file_path (video_clip s)) @ ''_black_'' @ uuid4_hex h) ''.mp4'')
      else None)"
  "concat_list_path (build_plan rt h s) =
     (if black_extension_duration s > 0
      then Some (joinpath (parent (video_file_path (video_clip s)))
                   (stem (video_file_path (video_clip s)) @ ''_concat_'' @ uuid4_hex h) ''.txt'')
      else None)"
  "extended_video_path (build_plan rt h s) =
     (if black_extension_duration s > 0
      then Some (joinpath (parent (video_file_path (video_clip s)))
                   (stem (video_file_path (video_clip s)) @ ''_extended_'' @ uuid4_hex h) ''.mp4'')
      else None)"
  by (simp_all add: build_plan_def Let_def clips_loop_chains new_MixPlan_def split: prod.splits)

lemma build_plan_video:
  "video_input (build_plan rt h s) = video_file_path (video_clip s)"
  "video_resolution (build_plan rt h s) = resolution (video_clip s)"
  "video_fps (build_plan rt h s) = fps (video_clip s)"
  "output_args (build_plan rt h s) = [''-c:v'', ''copy'', ''-c:a'', ''aac'', ''-b:a'', ''192k'']"
  "audio_output_label (build_plan rt h s) = ''aout''"
  by (simp_all add: build_plan_def Let_def clips_loop_chains new_MixPlan_def split: prod.splits)







lemma scenario_A_extension: "black_extension_duration scenario_A = 1"
  by (simp add: scenario_A_def demo_session_def demo_audio_def demo_video_def
      black_extension_duration_def start_seconds_def Let_def)

lemma scenario_A_video:
  "video_file_path (video_clip scenario_A) = demo_path ''demo'' ''.mp4''"
  "resolution (video_clip scenario_A) = (1920, 1080)"
  "fps (video_clip scenario_A) = 25"
  by (simp_all add: scenario_A_def demo_session_def demo_video_def)

text \<open>
  Claim C1 does not hold of \<open>_run_plan\<close>: when the black clip was generated and the
  concatenation returns a non-zero code, the method returns with the black clip and the
  concat list still on disk.
\<close>

theorem temp_files_left_after_concat_failure:
  "fst (run_plan demo_runtime concat_failing_tool (build_plan demo_runtime demo_host scenario_A)
          (demo_path ''out'' ''.mp4'') start_world) = None
   \<and> ''./demo_black_0f.mp4'' \<in> files (snd (run_plan demo_runtime concat_failing_tool
          (build_plan demo_runtime demo_host scenario_A) (demo_path ''out'' ''.mp4'') start_world))
   \<and> ''./demo_concat_0f.txt'' \<in> files (snd (run_plan demo_runtime concat_failing_tool
          (build_plan demo_runtime demo_host scenario_A) (demo_path ''out'' ''.mp4'') start_world))
   \<and> ''./demo_black_0f.mp4'' \<notin> files start_world
   \<and> ''./demo_concat_0f.txt'' \<notin> files start_world"
  by (simp add: run_plan_def build_plan_needs build_plan_duration build_plan_paths build_plan_video
      scenario_A_extension scenario_A_video generate_black_clip_def concat_videos_def
      run_command_def base_command_def concat_failing_tool_def ok_result_def failed_result_def
      write_text_def start_world_def demo_host_def demo_path_def joinpath_def path_str_def
      Let_def)

text \<open>
  What the executor does guarantee: the final invocation is the mix command, and once it
  has returned (with any code) the registered temporary paths are gone.  An exception
  of the final invocation leaves them too.
\<close>

lemma files_fold_unlink: "files (fold unlink ps w) = files w - path_str ` set ps"
  by (induction ps arbitrary: w) (auto simp: unlink_def)

lemma invocations_fold_unlink: "invocations (fold unlink ps w) = invocations w"
  by (induction ps arbitrary: w) (auto simp: unlink_def)

lemma run_mix_invocation:
  "invocations (snd (run_mix ffmpeg plan output_path temp_paths video_in w)) =
     invocations w @ [base_command @ mix_command plan video_in output_path]"
  by (simp add: run_mix_def run_command_def Let_def invocations_fold_unlink
      split: prod.splits sum.splits)

lemma run_mix_cleans:
  assumes "fst (run_mix ffmpeg plan output_path temp_paths video_in w) = None"
    and "p \<in> set temp_paths"
  shows "path_str p \<notin> files (snd (run_mix ffmpeg plan output_path temp_paths video_in w))"
  using assms
  by (auto simp add: run_mix_def run_command_def Let_def files_fold_unlink
      split: prod.splits sum.splits)

lemma temp_files_removed_when_tool_succeeds:
  "files (snd (run_plan demo_runtime healthy_tool (build_plan demo_runtime demo_host scenario_A)
          (demo_path ''out'' ''.mp4'') start_world)) = {''./demo.mp4'', ''./se.wav'', ''./out.mp4''}"
  by (auto simp add: run_plan_def run_mix_def build_plan_needs build_plan_duration build_plan_paths
      build_plan_video scenario_A_extension scenario_A_video generate_black_clip_def
      concat_videos_def run_command_def base_command_def healthy_tool_def ok_result_def
      write_text_def unlink_def start_world_def demo_host_def demo_path_def joinpath_def
      path_str_def mix_command_def Let_def)

lemma temp_files_left_after_exception:
  "fst (run_plan demo_runtime mux_raising_tool (build_plan demo_runtime demo_host scenario_A)
          (demo_path ''out'' ''.mp4'') start_world) = Some OSError
   \<and> {''./demo_black_0f.mp4'', ''./demo_concat_0f.txt'', ''./demo_extended_0f.mp4''}
       \<subseteq> files (snd (run_plan demo_runtime mux_raising_tool
            (build_plan demo_runtime demo_host scenario_A) (demo_path ''out'' ''.mp4'') start_world))"
  by (simp add: run_plan_def run_mix_def build_plan_needs build_plan_duration build_plan_paths
      build_plan_video scenario_A_extension scenario_A_video generate_black_clip_def
      concat_videos_def run_command_def base_command_def mux_raising_tool_def ok_result_def
      write_text_def start_world_def demo_host_def demo_path_def joinpath_def
      path_str_def mix_command_def Let_def)

section \<open>The round trip between frames and seconds\<close>














section \<open>Status of a task of the batch script\<close>

lemma run_ffmpeg_command_eq:
  "run_ffmpeg_command env c tr = (returned_zero env (full_ffmpeg c), tr @ [full_ffmpeg c])"
  by (auto simp add: run_ffmpeg_command_def a3_run_command_def returned_zero_def full_ffmpeg_def
      Let_def split: option.splits prod.splits)

lemma run_ffprobe_traceD:
  "run_ffprobe env f e t i fo tr = (r, tr') \<Longrightarrow> tr' = tr @ [probe_cmd f e t i fo]"
  by (auto simp add: run_ffprobe_def Let_def probe_cmd_def split: prod.splits)

lemma ffmpeg_runs_simps:
  "ffmpeg_runs [] = []"
  "ffmpeg_runs (xs @ ys) = ffmpeg_runs xs @ ffmpeg_runs ys"
  "ffmpeg_runs (probe_cmd f e t i fo # xs) = ffmpeg_runs xs"
  "ffmpeg_runs (full_ffmpeg c # xs) = full_ffmpeg c # ffmpeg_runs xs"
  by (simp_all add: ffmpeg_runs_def probe_cmd_def full_ffmpeg_def)

lemma find_and_mix_audio_cases:
  "find_and_mix_audio env name [] =
     (case listdir env (audio_dir env) of
        None \<Rightarrow> ((None, None), [])
      | Some names \<Rightarrow>
          if matching_audios env name names = [] then ((None, None), [])
          else if length (matching_audios env name names) = 1
          then ((Some (matching_audios env name names ! 0), None), [])
          else if returned_zero env (premix_of env name)
          then ((Some (path_join (mix_dir env)
                   (''temp_combined_'' @ name @ ''_'' @ str_int (clock env) @ ''.wav'')),
                 Some (path_join (mix_dir env)
                   (''temp_combined_'' @ name @ ''_'' @ str_int (clock env) @ ''.wav''))),
                [premix_of env name])
          else ((None, None), [premix_of env name]))"
  by (simp add: find_and_mix_audio_def run_ffmpeg_command_eq premix_of_def found_audios_def
      Let_def split: option.splits)

lemma find_and_mix_audio_runs:
  "fst (fst (find_and_mix_audio env name [])) \<noteq> None
   \<Longrightarrow> list_all (returned_zero env) (ffmpeg_runs (snd (find_and_mix_audio env name [])))"
  by (auto simp add: find_and_mix_audio_cases ffmpeg_runs_simps premix_of_def
      split: option.splits if_splits)

lemma extend_video_runs:
  assumes "extend_video env name f d tr = (Some v, tr')"
    and "list_all (returned_zero env) (ffmpeg_runs tr)"
  shows "list_all (returned_zero env) (ffmpeg_runs tr')"
  using assms
  by (auto simp add: extend_video_def Let_def run_ffmpeg_command_eq
      ffmpeg_runs_simps
      split: prod.splits option.splits if_splits dest!: run_ffprobe_traceD)

lemma find_and_mix_audio_None:
  "fst (fst (find_and_mix_audio env name [])) = None \<longleftrightarrow>
     found_audios env name = []
     \<or> (1 < length (found_audios env name) \<and> \<not> returned_zero env (premix_of env name))"
  by (cases "found_audios env name")
     (auto simp add: find_and_mix_audio_cases found_audios_def split: option.splits)

lemma find_and_mix_audio_trace:
  "snd (find_and_mix_audio env name []) =
     (if 1 < length (found_audios env name) then [premix_of env name] else [])"
  by (cases "found_audios env name")
     (auto simp add: find_and_mix_audio_cases found_audios_def split: option.splits)

lemma find_and_mix_audio_runsD:
  "find_and_mix_audio env name [] = ((Some c, t), tr0)
   \<Longrightarrow> list_all (returned_zero env) (ffmpeg_runs tr0)"
  using find_and_mix_audio_runs [of env name] by simp

lemma final_merge_status: "fst (final_merge env a e vi c f out tr) \<noteq> skipped"
  by (simp add: final_merge_def run_ffmpeg_command_eq)

lemma final_merge_runs:
  assumes "final_merge env a e vi c f out tr = (success, tr')"
    and "list_all (returned_zero env) (ffmpeg_runs tr)"
  shows "list_all (returned_zero env) (ffmpeg_runs tr')"
proof -
  from assms(1) have ok: "returned_zero env (full_ffmpeg (final_merge_cmd a e vi c f out))"
    by (simp add: final_merge_def run_ffmpeg_command_eq split: if_splits)
  obtain r t where p: "run_ffprobe env out ''format=duration'' ''v'' 0 default_format
        (tr @ [full_ffmpeg (final_merge_cmd a e vi c f out)]) = (r, t)"
    by (cases "run_ffprobe env out ''format=duration'' ''v'' 0 default_format
        (tr @ [full_ffmpeg (final_merge_cmd a e vi c f out)])") auto
  from assms(1) ok p have "tr' = t"
    by (simp add: final_merge_def run_ffmpeg_command_eq)
  with run_ffprobe_traceD [OF p] ok assms(2) show ?thesis
    by (simp add: ffmpeg_runs_simps)
qed

lemma process_cases:
  assumes "process_video_task env v = (st, tr)"
  shows "(st = skipped \<and> fst (fst (find_and_mix_audio env (splitext_root v) [])) = None
            \<and> tr = snd (find_and_mix_audio env (splitext_root v) []))
       \<or> (st = failed \<and> fst (fst (find_and_mix_audio env (splitext_root v) [])) \<noteq> None)
       \<or> (st = success \<and> fst (fst (find_and_mix_audio env (splitext_root v) [])) \<noteq> None
            \<and> list_all (returned_zero env) (ffmpeg_runs tr))"
proof (cases "find_and_mix_audio env (splitext_root v) []")
  case (Pair res tr0)
  obtain c t where res: "res = (c, t)" by (cases res) auto
  show ?thesis
  proof (cases c)
    case None
    with assms Pair res show ?thesis by (simp add: process_video_task_def Let_def)
  next
    case (Some path)
    have tr0: "list_all (returned_zero env) (ffmpeg_runs tr0)"
      using find_and_mix_audio_runsD [of env "splitext_root v" path t tr0] Pair res Some by simp
    have notskip: "st \<noteq> skipped"
      using assms Pair res Some final_merge_status
      by (auto simp add: process_video_task_def Let_def
          split: prod.splits option.splits if_splits) (metis fst_conv)+
    have "list_all (returned_zero env) (ffmpeg_runs tr)" if "st = success"
      using assms Pair res Some tr0 that
      by (auto simp add: process_video_task_def Let_def ffmpeg_runs_simps
          split: prod.splits option.splits if_splits
          dest!: run_ffprobe_traceD dest: extend_video_runs final_merge_runs)
    with notskip Pair res Some show ?thesis by (cases st) auto
  qed
qed

lemma splitext_demo: "splitext_root ''demo.mp4'' = ''demo''"
  by (simp add: splitext_root_def Let_def)

lemma found_demo:
  "found_audios (demo_env [''a1_demo.wav'', ''A2_Demo.WAV'', ''other.wav''] rc) ''demo''
     = [''/w/~audio/a1_demo.wav'', ''/w/~audio/A2_Demo.WAV'']"
  by (simp add: found_audios_def demo_env_def matching_audios_def endswith_def lower_def
      lower_char_def path_join_def)

lemma found_none:
  "found_audios (demo_env [''other.wav''] rc) ''demo'' = []"
  by (simp add: found_audios_def demo_env_def matching_audios_def endswith_def lower_def
      lower_char_def path_join_def)

lemma found_one:
  "found_audios (demo_env [''a1_demo.wav''] rc) ''demo'' = [''/w/~audio/a1_demo.wav'']"
  by (simp add: found_audios_def demo_env_def matching_audios_def endswith_def lower_def
      lower_char_def path_join_def)

text \<open>
  Claim C4, amended.  A task is skipped exactly when no external audio could be prepared:
  no matching file was found (or the audio directory could not be listed), or several
  were found and their pre-mix did not return 0.  A skipped task has run no command, or
  only that pre-mix.  When the audio was prepared, any ffmpeg run (black clip,
  concatenation, final merge) that does not return 0 gives the status failed.
\<close>

theorem skipped_only_without_prepared_audio:
  "(fst (process_video_task env v) = skipped \<longleftrightarrow>
      found_audios env (splitext_root v) = []
      \<or> (1 < length (found_audios env (splitext_root v))
          \<and> \<not> returned_zero env (premix_of env (splitext_root v))))
   \<and> (fst (process_video_task env v) = skipped \<longrightarrow>
        snd (process_video_task env v) =
          (if 1 < length (found_audios env (splitext_root v))
           then [premix_of env (splitext_root v)] else []))
   \<and> (fst (process_video_task env v) \<noteq> skipped
        \<and> \<not> list_all (returned_zero env) (ffmpeg_runs (snd (process_video_task env v)))
       \<longrightarrow> fst (process_video_task env v) = failed)"
proof -
  obtain st tr where p: "process_video_task env v = (st, tr)"
    by (cases "process_video_task env v") auto
  from process_cases [OF p] show ?thesis
    unfolding p fst_conv snd_conv
    using find_and_mix_audio_None [of env "splitext_root v"]
      find_and_mix_audio_trace [of env "splitext_root v"]
    by auto
qed

theorem skipped_only_without_prepared_audio_witness:
  "found_audios (demo_env [''other.wav''] 0) (splitext_root ''demo.mp4'') = []
   \<and> process_video_task (demo_env [''other.wav''] 0) ''demo.mp4'' = (skipped, [])"
  using skipped_only_without_prepared_audio [of "demo_env [''other.wav''] 0" "''demo.mp4''"]
  by (cases "process_video_task (demo_env [''other.wav''] 0) ''demo.mp4''")
     (simp add: splitext_demo found_none)

lemma find_two:
  "find_and_mix_audio (demo_env [''a1_demo.wav'', ''A2_Demo.WAV'', ''other.wav''] 1) ''demo'' [] =
     ((None, None), [premix_of (demo_env [''a1_demo.wav'', ''A2_Demo.WAV'', ''other.wav''] 1) ''demo''])"
proof -
  have "\<not> returned_zero (demo_env [''a1_demo.wav'', ''A2_Demo.WAV'', ''other.wav''] 1) cmd" for cmd
    by (simp add: returned_zero_def demo_env_def)
  with found_demo [of 1] show ?thesis
    by (simp add: find_and_mix_audio_cases found_audios_def demo_env_def)
qed

text \<open>
  With two matching audio files and a pre-mix that returns 1, the task is skipped although
  an external command was run and failed.
\<close>

theorem premix_failure_is_skipped_counterexample:
  "process_video_task (demo_env [''a1_demo.wav'', ''A2_Demo.WAV'', ''other.wav''] 1) ''demo.mp4''
     = (skipped, [premix_of (demo_env [''a1_demo.wav'', ''A2_Demo.WAV'', ''other.wav''] 1) ''demo''])
   \<and> external (demo_env [''a1_demo.wav'', ''A2_Demo.WAV'', ''other.wav''] 1)
        (premix_of (demo_env [''a1_demo.wav'', ''A2_Demo.WAV'', ''other.wav''] 1) ''demo'')
     = Some (1, ''5.0'', ''Invalid data found'')
   \<and> take 9 (premix_of (demo_env [''a1_demo.wav'', ''A2_Demo.WAV'', ''other.wav''] 1) ''demo'')
     = [''ffmpeg'', ''-hide_banner'', ''-loglevel'', ''warning'', ''-y'',
        ''-i'', ''/w/~audio/a1_demo.wav'', ''-i'', ''/w/~audio/A2_Demo.WAV'']"
proof -
  have 1: "process_video_task (demo_env [''a1_demo.wav'', ''A2_Demo.WAV'', ''other.wav''] 1) ''demo.mp4''
     = (skipped, [premix_of (demo_env [''a1_demo.wav'', ''A2_Demo.WAV'', ''other.wav''] 1) ''demo''])"
    by (simp add: process_video_task_def Let_def splitext_demo find_two)
  have 2: "external (demo_env [''a1_demo.wav'', ''A2_Demo.WAV'', ''other.wav''] 1) cmd
     = Some (1, ''5.0'', ''Invalid data found'')" for cmd
    by (simp add: demo_env_def)
  have 3: "take 9 (premix_of (demo_env [''a1_demo.wav'', ''A2_Demo.WAV'', ''other.wav''] 1) ''demo'')
     = [''ffmpeg'', ''-hide_banner'', ''-loglevel'', ''warning'', ''-y'',
        ''-i'', ''/w/~audio/a1_demo.wav'', ''-i'', ''/w/~audio/A2_Demo.WAV'']"
    by (simp add: premix_of_def found_demo premix_command_def full_ffmpeg_def)
  from 1 2 3 show ?thesis by simp
qed

lemma find_one:
  "find_and_mix_audio (demo_env [''a1_demo.wav''] 0) ''demo'' [] =
     ((Some ''/w/~audio/a1_demo.wav'', None), [])"
  using found_one [of 0]
  by (simp add: find_and_mix_audio_cases found_audios_def demo_env_def)

lemma probe_demo:
  "run_ffprobe (demo_env names 0) f e t i fo tr = (Some ''5.0'', tr @ [probe_cmd f e t i fo])"
  by (simp add: run_ffprobe_def a3_run_command_def demo_env_def strip_def is_space_def
      probe_cmd_def Let_def)

lemma healthy_run_succeeds:
  "fst (process_video_task (demo_env [''a1_demo.wav''] 0) ''demo.mp4'') = success"
proof -
  have pf: "parse_float (demo_env [''a1_demo.wav''] 0) ''5.0'' = Some 5"
    by (simp add: demo_env_def)
  have ok: "returned_zero (demo_env [''a1_demo.wav''] 0) cmd" for cmd
    by (simp add: returned_zero_def demo_env_def)
  show ?thesis
    by (simp add: process_video_task_def Let_def splitext_demo find_one probe_demo pf
        final_merge_def run_ffmpeg_command_eq ok)
qed

end
